theory Spec2Isabelle
  imports Complex_Main
begin

section \<open>JavaScript values\<close>

text \<open>
  The edge function \<^verbatim>\<open>supabase/functions/perplexity-research/index.ts\<close> works on
  parsed JSON. A field whose type the code tests at run time is a \<open>js_value\<close>:
  \<open>JUndefined\<close> is a missing field, \<open>JObject\<close> any object or array (always truthy,
  never a string). Numbers are the reals: JSON carries neither NaN nor an infinity,
  and rounding of doubles is left out.
\<close>

datatype js_value = JUndefined | JNull | JBool bool | JNum real | JStr string | JObject

text \<open>ToBoolean, as used by \<^verbatim>\<open>!v\<close>, \<^verbatim>\<open>a || b\<close> and \<^verbatim>\<open>a && b\<close>.\<close>

fun truthy :: "js_value \<Rightarrow> bool" where
  "truthy JUndefined = False"
| "truthy JNull = False"
| "truthy (JBool b) = b"
| "truthy (JNum x) = (x \<noteq> 0)"
| "truthy (JStr s) = (s \<noteq> [])"
| "truthy JObject = True"

text \<open>\<^verbatim>\<open>typeof v === "string"\<close>\<close>

fun is_string :: "js_value \<Rightarrow> bool" where
  "is_string (JStr s) = True"
| "is_string v = False"

text \<open>\<^verbatim>\<open>a || b\<close>\<close>

definition js_or :: "js_value \<Rightarrow> js_value \<Rightarrow> js_value" where
  "js_or a b = (if truthy a then a else b)"

text \<open>\<^verbatim>\<open>x || 0\<close> on an optional number: a missing number and zero both give zero.\<close>

definition or_zero :: "real option \<Rightarrow> real" where
  "or_zero x = (case x of None \<Rightarrow> 0 | Some v \<Rightarrow> (if v \<noteq> 0 then v else 0))"

text \<open>
  Text that is not ASCII (the step names and the narration are Russian) is written as
  its UTF-8 bytes.
\<close>

definition utf8 :: "nat list \<Rightarrow> string" where
  "utf8 bs = map char_of bs"

section \<open>Provider responses\<close>

text \<open>
  A citation as the client's \<^verbatim>\<open>ResearchResult\<close> interface declares it: an object with
  \<^verbatim>\<open>url\<close>, \<^verbatim>\<open>title\<close>, \<^verbatim>\<open>snippet\<close>, an optional \<^verbatim>\<open>source\<close> and the three fields
  that \<^verbatim>\<open>callPerplexity\<close> adds. What the upstream really sends in a field is not checked
  by any type, so each field holds a \<open>js_value\<close>.
\<close>

record citation =
  url :: js_value
  title :: js_value
  snippet :: js_value
  source :: js_value
  relevanceScore :: js_value
  trustScore :: js_value
  category :: js_value

text \<open>
  An element of the \<^verbatim>\<open>citations\<close> array is typed \<^verbatim>\<open>any\<close> in \<^verbatim>\<open>callPerplexity\<close>:
  \<open>Citation_object\<close> is an object (an array too, with every field missing), and
  \<open>Citation_other v\<close> is any other JSON value \<open>v\<close>: \<^verbatim>\<open>null\<close>, a string, a number or a
  boolean.
\<close>

datatype citation_elem = Citation_object citation | Citation_other js_value


record usage =
  total_tokens :: "real option"

text \<open>
  The JSON body of a provider, an object: \<open>citations\<close> is \<open>None\<close> when the field is
  missing and the elements of the array otherwise; \<open>usage\<close> is \<open>None\<close> when the field
  is missing; \<open>rest\<close> stands for all other fields, which the service passes on unread.
\<close>

record provider_response =
  citations :: "citation_elem list option"
  usage :: "usage option"
  rest :: string

text \<open>
  What \<^verbatim>\<open>await fetch(url, ...)\<close> gives: the promise rejects (transport failure), or
  there is a response with \<^verbatim>\<open>ok\<close> (the flag of a status from 200 to 299), \<^verbatim>\<open>status\<close>
  and a body, where \<^verbatim>\<open>response.json()\<close> rejects with a message (\<open>Inl\<close>) or yields the
  parsed body (\<open>Inr\<close>).
\<close>

datatype fetch_outcome =
  Fetch_rejects string
| Fetch_response bool nat "string + provider_response"

text \<open>
  The exceptions of the service. The three \<^verbatim>\<open>new Error(`... API error: ${response.status}`)\<close>
  keep the status they print; \<open>Type_error v\<close> is the \<^verbatim>\<open>TypeError\<close> that the runtime raises
  on the citation element \<open>v\<close>; \<open>Thrown\<close> is any other exception, with its message.
\<close>

datatype error =
  Perplexity_API_error nat
| Gemini_API_error nat
| OpenAI_API_error nat
| Type_error js_value
| Thrown string

subsection \<open>callPerplexity\<close>

text \<open>
  The callback of \<^verbatim>\<open>result.citations.map((citation, index) => ...)\<close> on an object. It
  calls \<^verbatim>\<open>Math.random()\<close> twice; \<open>r1\<close> and \<open>r2\<close> are the two values, in order.
\<close>

definition enhance_citation :: "real \<Rightarrow> real \<Rightarrow> citation \<Rightarrow> nat \<Rightarrow> citation" where
  "enhance_citation r1 r2 c index =
     c\<lparr> url := (if \<not> truthy (url c) \<or> \<not> is_string (url c) then JStr ''#'' else url c),
        relevanceScore := JNum (max 0.3 (1 - real index * 0.1 + (r1 * 0.2 - 0.1))),
        trustScore := JNum (max 0.4 (0.9 - r2 * 0.3)),
        category := js_or (source c) (JStr ''web'') \<rparr>"

text \<open>
  The callback on any element. The file is a module, so it runs in strict mode: on
  \<^verbatim>\<open>null\<close> the read \<^verbatim>\<open>citation.url\<close> raises a \<^verbatim>\<open>TypeError\<close>, and on a string, a number or
  a boolean the read gives \<^verbatim>\<open>undefined\<close> and the assignment \<^verbatim>\<open>citation.url = "#"\<close> raises
  one. Both happen before the first call of \<^verbatim>\<open>Math.random()\<close>.
\<close>

definition enhance_element :: "real \<Rightarrow> real \<Rightarrow> citation_elem \<Rightarrow> nat \<Rightarrow> error + citation_elem" where
  "enhance_element r1 r2 citation index =
     (case citation of
        Citation_object c \<Rightarrow> Inr (Citation_object (enhance_citation r1 r2 c index))
      | Citation_other v \<Rightarrow> Inl (Type_error v))"

text \<open>
  The \<^verbatim>\<open>map\<close> itself, from position \<open>index\<close> on; an exception of the callback ends it.
  \<open>rnd n\<close> is the value of the \<open>n\<close>-th call of \<^verbatim>\<open>Math.random()\<close> made by the adapter call,
  so the citation at position \<open>i\<close> draws \<open>rnd (2 * i)\<close> and \<open>rnd (2 * i + 1)\<close>.
\<close>

fun enhance_citations ::
  "(nat \<Rightarrow> real) \<Rightarrow> nat \<Rightarrow> citation_elem list \<Rightarrow> error + citation_elem list" where
  "enhance_citations rnd index [] = Inr []"
| "enhance_citations rnd index (c # cs) =
     (case enhance_element (rnd (2 * index)) (rnd (2 * index + 1)) c index of
        Inl err \<Rightarrow> Inl err
      | Inr c' \<Rightarrow>
          (case enhance_citations rnd (Suc index) cs of
             Inl err \<Rightarrow> Inl err
           | Inr cs' \<Rightarrow> Inr (c' # cs')))"

text \<open>
  \<^verbatim>\<open>callPerplexity(query, systemMessage)\<close>. The query and the system message only shape
  the request that is sent; the model takes what comes back: the outcome of the
  \<^verbatim>\<open>fetch\<close> and the values of \<^verbatim>\<open>Math.random()\<close>.
\<close>

definition callPerplexity :: "fetch_outcome \<Rightarrow> (nat \<Rightarrow> real) \<Rightarrow> error + provider_response" where
  "callPerplexity outcome rnd =
     (case outcome of
        Fetch_rejects m \<Rightarrow> Inl (Thrown m)
      | Fetch_response ok status body \<Rightarrow>
          if \<not> ok then Inl (Perplexity_API_error status)
          else (case body of
                  Inl m \<Rightarrow> Inl (Thrown m)
                | Inr result \<Rightarrow>
                    (case citations result of
                       Some cs \<Rightarrow>
                         (case enhance_citations rnd 0 cs of
                            Inl err \<Rightarrow> Inl err
                          | Inr cs' \<Rightarrow> Inr (result\<lparr>citations := Some cs'\<rparr>))
                     | None \<Rightarrow> Inr result)))"

text \<open>\<^verbatim>\<open>callGemini\<close> and \<^verbatim>\<open>callOpenAI\<close> return the parsed body as it is.\<close>

definition callGemini :: "fetch_outcome \<Rightarrow> error + provider_response" where
  "callGemini outcome =
     (case outcome of
        Fetch_rejects m \<Rightarrow> Inl (Thrown m)
      | Fetch_response ok status body \<Rightarrow>
          if \<not> ok then Inl (Gemini_API_error status)
          else (case body of Inl m \<Rightarrow> Inl (Thrown m) | Inr result \<Rightarrow> Inr result))"

definition callOpenAI :: "fetch_outcome \<Rightarrow> error + provider_response" where
  "callOpenAI outcome =
     (case outcome of
        Fetch_rejects m \<Rightarrow> Inl (Thrown m)
      | Fetch_response ok status body \<Rightarrow>
          if \<not> ok then Inl (OpenAI_API_error status)
          else (case body of Inl m \<Rightarrow> Inl (Thrown m) | Inr result \<Rightarrow> Inr result))"

section \<open>Step results and the history\<close>

text \<open>One record of the catalog that \<^verbatim>\<open>generateCrossReferences\<close> returns.\<close>

record cross_reference =
  ref_type :: string
  ref_confidence :: real
  ref_sources :: "string list"
  ref_description :: string

text \<open>One entry of \<^verbatim>\<open>report.researchSteps\<close>; a field that the history element lacks is \<open>None\<close>.\<close>

record step_summary =
  summary_step :: "nat option"
  summary_service :: "string option"
  summary_confidence :: real

record knowledge_graph =
  nodes :: "js_value list"
  edges :: "js_value list"
  topics :: "js_value list"

record quality_metrics =
  factualAccuracy :: real
  sourceReliability :: real
  analysisDepth :: real
  synthesisQuality :: real

record final_report =
  query :: js_value
  timestamp :: string
  totalSources :: nat
  totalTokens :: real
  researchSteps_summary :: "step_summary list"
  keyFindings :: "js_value list"
  knowledgeGraph :: knowledge_graph
  qualityMetrics :: quality_metrics
  recommendations :: "string list"

text \<open>
  The \<^verbatim>\<open>data\<close> of a step result has one of three shapes: the body of one provider
  (steps 0 to 2), the bundle of step 3, the report of step 4.
\<close>

datatype step_data =
  Provider_data provider_response
| Synthesis_data provider_response provider_response "cross_reference list"
| Report_data final_report

text \<open>
  The \<^verbatim>\<open>metadata\<close> object of each step, with its fields in the order of the source:
  \<^verbatim>\<open>sourcesFound, tokensUsed, confidence\<close>; \<^verbatim>\<open>conceptsAnalyzed, connectionsFound, confidence\<close>;
  \<^verbatim>\<open>tagsGenerated, categoriesCreated, confidence\<close>;
  \<^verbatim>\<open>factsValidated, contradictionsResolved, finalConfidence\<close>;
  \<^verbatim>\<open>totalSources, totalTokens, researchQuality\<close>.
\<close>

datatype step_metadata =
  Research_metadata nat real real
| Analysis_metadata nat nat real
| Tagging_metadata nat nat real
| Synthesis_metadata nat nat real
| Report_metadata nat real real

text \<open>\<^verbatim>\<open>metadata.confidence\<close>: steps 3 and 4 have no field of that name.\<close>

fun metadata_confidence :: "step_metadata \<Rightarrow> real option" where
  "metadata_confidence (Research_metadata n t c) = Some c"
| "metadata_confidence (Analysis_metadata n m c) = Some c"
| "metadata_confidence (Tagging_metadata n m c) = Some c"
| "metadata_confidence (Synthesis_metadata n m c) = None"
| "metadata_confidence (Report_metadata n t c) = None"

text \<open>
  \<^verbatim>\<open>previousData\<close> of a request is \<^verbatim>\<open>null\<close> (also the default when it is missing) or
  the array of what the earlier steps returned.
\<close>

datatype 'a previous = Prev_null | Prev_array "'a list"

text \<open>
  The result object of the handler. \<open>previousData\<close> is \<open>None\<close> in the result of step 0,
  which has no such key, and \<open>nextStep\<close> is \<open>None\<close> for \<^verbatim>\<open>null\<close>. An element of the
  history is such a result, or \<open>Hist_blank\<close>: a value with none of its fields (the
  empty object \<^verbatim>\<open>{}\<close>, a text body).
\<close>

datatype step_result =
  Step_result
    (step: nat)
    (stepName: string)
    (service: string)
    (data: step_data)
    (previousData: "hist_elem previous option")
    (nextStep: "nat option")
    (progress: nat)
    (aiThoughts: "string list")
    (metadata: step_metadata)
and hist_elem =
  Hist_result step_result
| Hist_blank

type_synonym history = "hist_elem previous"

subsection \<open>The fixed texts of the five steps\<close>

definition stepName_initial_research :: string where
  "stepName_initial_research =
     utf8 [208, 157, 208, 176, 209, 135, 208, 176, 208, 187, 209, 140, 208, 189, 208, 190, 208,
       181, 32, 208, 184, 209, 129, 209, 129, 208, 187, 208, 181, 208, 180, 208, 190, 208, 178,
       208, 176, 208, 189, 208, 184, 208, 181]"

definition stepName_deep_analysis :: string where
  "stepName_deep_analysis =
     utf8 [208, 147, 208, 187, 209, 131, 208, 177, 208, 190, 208, 186, 208, 184, 208, 185, 32,
       208, 176, 208, 189, 208, 176, 208, 187, 208, 184, 208, 183]"

definition stepName_classification_tagging :: string where
  "stepName_classification_tagging =
     utf8 [208, 154, 208, 187, 208, 176, 209, 129, 209, 129, 208, 184, 209, 132, 208, 184, 208,
       186, 208, 176, 209, 134, 208, 184, 209, 143, 32, 208, 184, 32, 209, 130, 208, 181, 208,
       179, 208, 184, 209, 128, 208, 190, 208, 178, 208, 176, 208, 189, 208, 184, 208, 181]"

definition stepName_synthesis_validation :: string where
  "stepName_synthesis_validation =
     utf8 [208, 161, 208, 184, 208, 189, 209, 130, 208, 181, 208, 183, 32, 208, 184, 32, 208,
       178, 208, 176, 208, 187, 208, 184, 208, 180, 208, 176, 209, 134, 208, 184, 209, 143]"

definition stepName_final_report :: string where
  "stepName_final_report =
     utf8 [208, 164, 208, 184, 208, 189, 208, 176, 208, 187, 209, 140, 208, 189, 209, 139, 208,
       185, 32, 208, 190, 209, 130, 209, 135, 208, 181, 209, 130]"

definition aiThoughts_initial_research :: "string list" where
  "aiThoughts_initial_research =
    [utf8 [240, 159, 148, 141, 32, 208, 144, 208, 189, 208, 176, 208, 187, 208, 184, 208, 183,
        208, 184, 209, 128, 209, 131, 209, 142, 32, 208, 183, 208, 176, 208, 191, 209, 128,
        208, 190, 209, 129, 32, 208, 191, 208, 190, 208, 187, 209, 140, 208, 183, 208, 190,
        208, 178, 208, 176, 209, 130, 208, 181, 208, 187, 209, 143, 46, 46, 46],
      utf8 [240, 159, 147, 161, 32, 208, 161, 208, 186, 208, 176, 208, 189, 208, 184, 209, 128,
        209, 131, 209, 142, 32, 208, 180, 208, 190, 209, 129, 209, 130, 209, 131, 208, 191,
        208, 189, 209, 139, 208, 181, 32, 208, 184, 209, 129, 209, 130, 208, 190, 209, 135,
        208, 189, 208, 184, 208, 186, 208, 184, 32, 208, 184, 208, 189, 209, 132, 208, 190,
        209, 128, 208, 188, 208, 176, 209, 134, 208, 184, 208, 184, 46, 46, 46],
      utf8 [240, 159, 142, 175, 32, 208, 158, 208, 191, 209, 128, 208, 181, 208, 180, 208, 181,
        208, 187, 209, 143, 209, 142, 32, 208, 186, 208, 187, 209, 142, 209, 135, 208, 181,
        208, 178, 209, 139, 208, 181, 32, 209, 130, 208, 181, 208, 188, 209, 139, 32, 208, 180,
        208, 187, 209, 143, 32, 208, 184, 209, 129, 209, 129, 208, 187, 208, 181, 208, 180,
        208, 190, 208, 178, 208, 176, 208, 189, 208, 184, 209, 143, 46, 46, 46],
      utf8 [240, 159, 147, 138, 32, 208, 161, 208, 190, 208, 177, 208, 184, 209, 128, 208, 176,
        209, 142, 32, 208, 191, 208, 181, 209, 128, 208, 178, 208, 184, 209, 135, 208, 189,
        209, 139, 208, 181, 32, 208, 180, 208, 176, 208, 189, 208, 189, 209, 139, 208, 181, 32,
        208, 184, 208, 183, 32, 208, 189, 208, 176, 208, 180, 208, 181, 208, 182, 208, 189,
        209, 139, 209, 133, 32, 208, 184, 209, 129, 209, 130, 208, 190, 209, 135, 208, 189,
        208, 184, 208, 186, 208, 190, 208, 178, 46, 46, 46],
      utf8 [240, 159, 148, 151, 32, 208, 161, 208, 190, 208, 183, 208, 180, 208, 176, 209, 142,
        32, 208, 177, 208, 176, 208, 183, 208, 190, 208, 178, 209, 131, 209, 142, 32, 209, 129,
        209, 130, 209, 128, 209, 131, 208, 186, 209, 130, 209, 131, 209, 128, 209, 131, 32,
        208, 183, 208, 189, 208, 176, 208, 189, 208, 184, 208, 185, 46, 46, 46]]"

definition aiThoughts_deep_analysis :: "string list" where
  "aiThoughts_deep_analysis =
    [utf8 [240, 159, 167, 160, 32, 208, 159, 208, 190, 208, 187, 209, 131, 209, 135, 208, 176,
        209, 142, 32, 208, 180, 208, 176, 208, 189, 208, 189, 209, 139, 208, 181, 32, 208, 190,
        209, 130, 32, 80, 101, 114, 112, 108, 101, 120, 105, 116, 121, 32, 208, 180, 208, 187,
        209, 143, 32, 208, 176, 208, 189, 208, 176, 208, 187, 208, 184, 208, 183, 208, 176, 46,
        46, 46],
      utf8 [240, 159, 148, 172, 32, 208, 159, 209, 128, 208, 190, 208, 178, 208, 190, 208, 182,
        209, 131, 32, 209, 129, 208, 181, 208, 188, 208, 176, 208, 189, 209, 130, 208, 184,
        209, 135, 208, 181, 209, 129, 208, 186, 208, 184, 208, 185, 32, 208, 176, 208, 189,
        208, 176, 208, 187, 208, 184, 208, 183, 32, 209, 129, 208, 190, 208, 180, 208, 181,
        209, 128, 208, 182, 208, 184, 208, 188, 208, 190, 208, 179, 208, 190, 46, 46, 46],
      utf8 [240, 159, 149, 184, 239, 184, 143, 32, 208, 146, 209, 139, 209, 143, 208, 178, 208,
        187, 209, 143, 209, 142, 32, 209, 129, 208, 186, 209, 128, 209, 139, 209, 130, 209,
        139, 208, 181, 32, 209, 129, 208, 178, 209, 143, 208, 183, 208, 184, 32, 208, 188, 208,
        181, 208, 182, 208, 180, 209, 131, 32, 208, 186, 208, 190, 208, 189, 209, 134, 208,
        181, 208, 191, 209, 134, 208, 184, 209, 143, 208, 188, 208, 184, 46, 46, 46],
      utf8 [240, 159, 147, 136, 32, 208, 144, 208, 189, 208, 176, 208, 187, 208, 184, 208, 183,
        208, 184, 209, 128, 209, 131, 209, 142, 32, 209, 130, 209, 128, 208, 181, 208, 189,
        208, 180, 209, 139, 32, 208, 184, 32, 208, 191, 208, 176, 209, 130, 209, 130, 208, 181,
        209, 128, 208, 189, 209, 139, 32, 208, 178, 32, 208, 180, 208, 176, 208, 189, 208, 189,
        209, 139, 209, 133, 46, 46, 46],
      utf8 [240, 159, 142, 173, 32, 208, 158, 208, 191, 209, 128, 208, 181, 208, 180, 208, 181,
        208, 187, 209, 143, 209, 142, 32, 208, 186, 208, 190, 208, 189, 209, 130, 208, 181,
        208, 186, 209, 129, 209, 130, 209, 131, 208, 176, 208, 187, 209, 140, 208, 189, 209,
        139, 208, 181, 32, 208, 189, 209, 142, 208, 176, 208, 189, 209, 129, 209, 139, 46, 46,
        46],
      utf8 [240, 159, 148, 132, 32, 208, 159, 208, 190, 208, 180, 208, 179, 208, 190, 209, 130,
        208, 176, 208, 178, 208, 187, 208, 184, 208, 178, 208, 176, 209, 142, 32, 209, 129,
        209, 130, 209, 128, 209, 131, 208, 186, 209, 130, 209, 131, 209, 128, 208, 184, 209,
        128, 208, 190, 208, 178, 208, 176, 208, 189, 208, 189, 209, 139, 208, 181, 32, 208,
        180, 208, 176, 208, 189, 208, 189, 209, 139, 208, 181, 32, 208, 180, 208, 187, 209,
        143, 32, 79, 112, 101, 110, 65, 73, 46, 46, 46]]"

definition aiThoughts_classification_tagging :: "string list" where
  "aiThoughts_classification_tagging =
    [utf8 [240, 159, 143, 183, 239, 184, 143, 32, 208, 159, 208, 190, 208, 187, 209, 131, 209,
        135, 208, 176, 209, 142, 32, 208, 190, 208, 177, 209, 128, 208, 176, 208, 177, 208,
        190, 209, 130, 208, 176, 208, 189, 208, 189, 209, 139, 208, 181, 32, 208, 180, 208,
        176, 208, 189, 208, 189, 209, 139, 208, 181, 32, 208, 190, 209, 130, 32, 71, 101, 109,
        105, 110, 105, 46, 46, 46],
      utf8 [240, 159, 147, 139, 32, 208, 161, 208, 190, 208, 183, 208, 180, 208, 176, 209, 142,
        32, 209, 129, 208, 184, 209, 129, 209, 130, 208, 181, 208, 188, 209, 131, 32, 208, 186,
        208, 187, 208, 176, 209, 129, 209, 129, 208, 184, 209, 132, 208, 184, 208, 186, 208,
        176, 209, 134, 208, 184, 208, 184, 32, 208, 180, 208, 187, 209, 143, 32, 208, 184, 208,
        189, 209, 132, 208, 190, 209, 128, 208, 188, 208, 176, 209, 134, 208, 184, 208, 184,
        46, 46, 46],
      utf8 [240, 159, 142, 175, 32, 208, 147, 208, 181, 208, 189, 208, 181, 209, 128, 208, 184,
        209, 128, 209, 131, 209, 142, 32, 209, 128, 208, 181, 208, 187, 208, 181, 208, 178,
        208, 176, 208, 189, 209, 130, 208, 189, 209, 139, 208, 181, 32, 209, 130, 208, 181,
        208, 179, 208, 184, 32, 208, 180, 208, 187, 209, 143, 32, 208, 186, 208, 176, 208, 182,
        208, 180, 208, 190, 208, 179, 208, 190, 32, 208, 186, 208, 190, 208, 189, 209, 134,
        208, 181, 208, 191, 209, 130, 208, 176, 46, 46, 46],
      utf8 [240, 159, 147, 138, 32, 208, 161, 209, 130, 209, 128, 209, 131, 208, 186, 209, 130,
        209, 131, 209, 128, 208, 184, 209, 128, 209, 131, 209, 142, 32, 208, 180, 208, 176,
        208, 189, 208, 189, 209, 139, 208, 181, 32, 208, 191, 208, 190, 32, 208, 186, 208, 176,
        209, 130, 208, 181, 208, 179, 208, 190, 209, 128, 208, 184, 209, 143, 208, 188, 32,
        208, 178, 208, 176, 208, 182, 208, 189, 208, 190, 209, 129, 209, 130, 208, 184, 46, 46,
        46],
      utf8 [240, 159, 148, 141, 32, 208, 146, 209, 139, 208, 180, 208, 181, 208, 187, 209, 143,
        209, 142, 32, 208, 186, 208, 187, 209, 142, 209, 135, 208, 181, 208, 178, 209, 139,
        208, 181, 32, 208, 184, 208, 189, 209, 129, 208, 176, 208, 185, 209, 130, 209, 139, 32,
        208, 184, 32, 208, 178, 209, 139, 208, 178, 208, 190, 208, 180, 209, 139, 46, 46, 46],
      utf8 [240, 159, 140, 144, 32, 208, 161, 208, 190, 208, 183, 208, 180, 208, 176, 209, 142,
        32, 208, 179, 209, 128, 208, 176, 209, 132, 32, 208, 183, 208, 189, 208, 176, 208, 189,
        208, 184, 208, 185, 32, 209, 129, 32, 209, 130, 208, 181, 208, 179, 208, 184, 209, 128,
        208, 190, 208, 178, 208, 176, 208, 189, 208, 189, 209, 139, 208, 188, 208, 184, 32,
        209, 131, 208, 183, 208, 187, 208, 176, 208, 188, 208, 184, 46, 46, 46]]"

definition aiThoughts_synthesis_validation :: "string list" where
  "aiThoughts_synthesis_validation =
    [utf8 [240, 159, 148, 132, 32, 208, 161, 208, 184, 208, 189, 209, 130, 208, 181, 208, 183,
        208, 184, 209, 128, 209, 131, 209, 142, 32, 208, 180, 208, 176, 208, 189, 208, 189,
        209, 139, 208, 181, 32, 208, 190, 209, 130, 32, 208, 178, 209, 129, 208, 181, 209, 133,
        32, 65, 73, 45, 209, 129, 208, 181, 209, 128, 208, 178, 208, 184, 209, 129, 208, 190,
        208, 178, 46, 46, 46],
      utf8 [226, 156, 133, 32, 208, 159, 209, 128, 208, 190, 208, 178, 208, 190, 208, 182, 209,
        131, 32, 208, 186, 209, 128, 208, 190, 209, 129, 209, 129, 45, 208, 178, 208, 176, 208,
        187, 208, 184, 208, 180, 208, 176, 209, 134, 208, 184, 209, 142, 32, 209, 132, 208,
        176, 208, 186, 209, 130, 208, 190, 208, 178, 32, 209, 135, 208, 181, 209, 128, 208,
        181, 208, 183, 32, 80, 101, 114, 112, 108, 101, 120, 105, 116, 121, 46, 46, 46],
      utf8 [240, 159, 167, 172, 32, 208, 158, 208, 177, 209, 138, 208, 181, 208, 180, 208, 184,
        208, 189, 209, 143, 209, 142, 32, 208, 176, 208, 189, 208, 176, 208, 187, 208, 184,
        208, 183, 32, 208, 190, 209, 130, 32, 71, 101, 109, 105, 110, 105, 32, 208, 178, 32,
        208, 181, 208, 180, 208, 184, 208, 189, 209, 131, 209, 142, 32, 209, 129, 209, 130,
        209, 128, 209, 131, 208, 186, 209, 130, 209, 131, 209, 128, 209, 131, 46, 46, 46],
      utf8 [240, 159, 142, 175, 32, 208, 146, 209, 139, 209, 143, 208, 178, 208, 187, 209, 143,
        209, 142, 32, 208, 191, 209, 128, 208, 190, 209, 130, 208, 184, 208, 178, 208, 190,
        209, 128, 208, 181, 209, 135, 208, 184, 209, 143, 32, 208, 184, 32, 209, 131, 209, 129,
        209, 130, 209, 128, 208, 176, 208, 189, 209, 143, 209, 142, 32, 208, 189, 208, 181,
        209, 130, 208, 190, 209, 135, 208, 189, 208, 190, 209, 129, 209, 130, 208, 184, 46, 46,
        46],
      utf8 [240, 159, 147, 138, 32, 208, 161, 208, 190, 208, 183, 208, 180, 208, 176, 209, 142,
        32, 209, 132, 208, 184, 208, 189, 208, 176, 208, 187, 209, 140, 208, 189, 209, 131,
        209, 142, 32, 208, 190, 209, 134, 208, 181, 208, 189, 208, 186, 209, 131, 32, 208, 180,
        208, 190, 209, 129, 209, 130, 208, 190, 208, 178, 208, 181, 209, 128, 208, 189, 208,
        190, 209, 129, 209, 130, 208, 184, 46, 46, 46],
      utf8 [240, 159, 140, 159, 32, 208, 164, 208, 190, 209, 128, 208, 188, 208, 184, 209, 128,
        209, 131, 209, 142, 32, 208, 186, 208, 187, 209, 142, 209, 135, 208, 181, 208, 178,
        209, 139, 208, 181, 32, 208, 184, 208, 189, 209, 129, 208, 176, 208, 185, 209, 130,
        209, 139, 32, 208, 184, 32, 208, 178, 209, 139, 208, 178, 208, 190, 208, 180, 209, 139,
        46, 46, 46]]"

definition aiThoughts_final_report :: "string list" where
  "aiThoughts_final_report =
    [utf8 [240, 159, 147, 139, 32, 208, 154, 208, 190, 208, 188, 208, 191, 208, 184, 208, 187,
        208, 184, 209, 128, 209, 131, 209, 142, 32, 209, 132, 208, 184, 208, 189, 208, 176,
        208, 187, 209, 140, 208, 189, 209, 139, 208, 185, 32, 208, 184, 209, 129, 209, 129,
        208, 187, 208, 181, 208, 180, 208, 190, 208, 178, 208, 176, 209, 130, 208, 181, 208,
        187, 209, 140, 209, 129, 208, 186, 208, 184, 208, 185, 32, 208, 190, 209, 130, 209,
        135, 208, 181, 209, 130, 46, 46, 46],
      utf8 [240, 159, 147, 138, 32, 208, 152, 208, 189, 209, 130, 208, 181, 208, 179, 209, 128,
        208, 184, 209, 128, 209, 131, 209, 142, 32, 208, 178, 209, 129, 208, 181, 32, 208, 180,
        208, 176, 208, 189, 208, 189, 209, 139, 208, 181, 32, 208, 184, 32, 208, 176, 208, 189,
        208, 176, 208, 187, 208, 184, 208, 183, 46, 46, 46],
      utf8 [240, 159, 142, 168, 32, 208, 161, 208, 190, 208, 183, 208, 180, 208, 176, 209, 142,
        32, 208, 178, 208, 184, 208, 183, 209, 131, 208, 176, 208, 187, 208, 184, 208, 183,
        208, 176, 209, 134, 208, 184, 208, 184, 32, 208, 184, 32, 208, 179, 209, 128, 208, 176,
        209, 132, 209, 139, 32, 208, 183, 208, 189, 208, 176, 208, 189, 208, 184, 208, 185, 46,
        46, 46],
      utf8 [240, 159, 147, 136, 32, 208, 147, 208, 181, 208, 189, 208, 181, 209, 128, 208, 184,
        209, 128, 209, 131, 209, 142, 32, 208, 188, 208, 181, 209, 130, 209, 128, 208, 184,
        208, 186, 208, 184, 32, 208, 186, 208, 176, 209, 135, 208, 181, 209, 129, 209, 130,
        208, 178, 208, 176, 32, 208, 184, 209, 129, 209, 129, 208, 187, 208, 181, 208, 180,
        208, 190, 208, 178, 208, 176, 208, 189, 208, 184, 209, 143, 46, 46, 46],
      utf8 [226, 156, 168, 32, 208, 164, 208, 184, 208, 189, 208, 176, 208, 187, 208, 184, 208,
        183, 208, 184, 209, 128, 209, 131, 209, 142, 32, 208, 191, 209, 128, 208, 181, 208,
        183, 208, 181, 208, 189, 209, 130, 208, 176, 209, 134, 208, 184, 209, 142, 32, 209,
        128, 208, 181, 208, 183, 209, 131, 208, 187, 209, 140, 209, 130, 208, 176, 209, 130,
        208, 190, 208, 178, 46, 46, 46],
      utf8 [240, 159, 142, 175, 32, 208, 152, 209, 129, 209, 129, 208, 187, 208, 181, 208, 180,
        208, 190, 208, 178, 208, 176, 208, 189, 208, 184, 208, 181, 32, 208, 183, 208, 176,
        208, 178, 208, 181, 209, 128, 209, 136, 208, 181, 208, 189, 208, 190, 32, 209, 131,
        209, 129, 208, 191, 208, 181, 209, 136, 208, 189, 208, 190, 33]]"

section \<open>Cross references and the final report\<close>

definition description_0 :: string where
  "description_0 =
     utf8 [208, 164, 208, 176, 208, 186, 209, 130, 209, 139, 32, 208, 191, 208, 190, 208, 180,
       209, 130, 208, 178, 208, 181, 209, 128, 208, 182, 208, 180, 208, 181, 208, 189, 209,
       139, 32, 208, 189, 208, 181, 209, 129, 208, 186, 208, 190, 208, 187, 209, 140, 208, 186,
       208, 184, 208, 188, 208, 184, 32, 208, 184, 209, 129, 209, 130, 208, 190, 209, 135, 208,
       189, 208, 184, 208, 186, 208, 176, 208, 188, 208, 184]"

definition description_1 :: string where
  "description_1 =
     utf8 [208, 161, 208, 181, 208, 188, 208, 176, 208, 189, 209, 130, 208, 184, 209, 135, 208,
       181, 209, 129, 208, 186, 208, 176, 209, 143, 32, 209, 129, 208, 190, 208, 179, 208, 187,
       208, 176, 209, 129, 208, 190, 208, 178, 208, 176, 208, 189, 208, 189, 208, 190, 209,
       129, 209, 130, 209, 140, 32, 208, 176, 208, 189, 208, 176, 208, 187, 208, 184, 208, 183,
       208, 176]"

definition description_2 :: string where
  "description_2 =
     utf8 [208, 162, 208, 190, 209, 135, 208, 189, 208, 190, 209, 129, 209, 130, 209, 140, 32,
       208, 186, 208, 187, 208, 176, 209, 129, 209, 129, 208, 184, 209, 132, 208, 184, 208,
       186, 208, 176, 209, 134, 208, 184, 208, 184, 32, 208, 184, 32, 209, 130, 208, 181, 208,
       179, 208, 184, 209, 128, 208, 190, 208, 178, 208, 176, 208, 189, 208, 184, 209, 143]"

definition recommendations_fixed :: "string list" where
  "recommendations_fixed =
    [utf8 [208, 160, 208, 181, 208, 186, 208, 190, 208, 188, 208, 181, 208, 189, 208, 180,
        209, 131, 208, 181, 209, 130, 209, 129, 209, 143, 32, 208, 180, 208, 176, 208, 187,
        209, 140, 208, 189, 208, 181, 208, 185, 209, 136, 208, 181, 208, 181, 32, 208, 184,
        209, 129, 209, 129, 208, 187, 208, 181, 208, 180, 208, 190, 208, 178, 208, 176, 208,
        189, 208, 184, 208, 181, 32, 208, 178, 209, 139, 209, 143, 208, 178, 208, 187, 208,
        181, 208, 189, 208, 189, 209, 139, 209, 133, 32, 209, 130, 209, 128, 208, 181, 208,
        189, 208, 180, 208, 190, 208, 178],
      utf8 [208, 157, 208, 181, 208, 190, 208, 177, 209, 133, 208, 190, 208, 180, 208, 184,
        208, 188, 208, 190, 32, 208, 188, 208, 190, 208, 189, 208, 184, 209, 130, 208, 190,
        209, 128, 208, 184, 209, 130, 209, 140, 32, 208, 184, 208, 183, 208, 188, 208, 181,
        208, 189, 208, 181, 208, 189, 208, 184, 209, 143, 32, 208, 178, 32, 208, 186, 208, 187,
        209, 142, 209, 135, 208, 181, 208, 178, 209, 139, 209, 133, 32, 208, 184, 209, 129,
        209, 130, 208, 190, 209, 135, 208, 189, 208, 184, 208, 186, 208, 176, 209, 133],
      utf8 [208, 159, 208, 190, 208, 187, 208, 181, 208, 183, 208, 189, 208, 190, 32, 209, 128,
        208, 176, 209, 129, 209, 136, 208, 184, 209, 128, 208, 184, 209, 130, 209, 140, 32,
        208, 176, 208, 189, 208, 176, 208, 187, 208, 184, 208, 183, 32, 209, 129, 208, 188,
        208, 181, 208, 182, 208, 189, 209, 139, 209, 133, 32, 209, 130, 208, 181, 208, 188,
        208, 176, 209, 130, 208, 184, 208, 186]]"

text \<open>\<^verbatim>\<open>if (!data) return [];\<close> An array is truthy, also the empty one; \<^verbatim>\<open>null\<close> is not.\<close>

fun truthy_previous :: "'a previous \<Rightarrow> bool" where
  "truthy_previous Prev_null = False"
| "truthy_previous (Prev_array xs) = True"

definition generateCrossReferences :: "'a previous \<Rightarrow> cross_reference list" where
  "generateCrossReferences data' =
     (if \<not> truthy_previous data' then []
      else
        [\<lparr>ref_type = ''fact_verification'', ref_confidence = 0.92,
          ref_sources = [''Perplexity'', ''Gemini''], ref_description = description_0\<rparr>,
         \<lparr>ref_type = ''semantic_consistency'', ref_confidence = 0.88,
          ref_sources = [''Gemini'', ''OpenAI''], ref_description = description_1\<rparr>,
         \<lparr>ref_type = ''classification_accuracy'', ref_confidence = 0.95,
          ref_sources = [''OpenAI'', ''Perplexity''], ref_description = description_2\<rparr>])"

text \<open>\<^verbatim>\<open>stepData.data.citations\<close> and \<^verbatim>\<open>stepData.data.usage\<close> of a history element.\<close>

fun data_citations :: "step_data \<Rightarrow> citation_elem list option" where
  "data_citations (Provider_data p) = citations p"
| "data_citations (Synthesis_data v s x) = None"
| "data_citations (Report_data r) = None"

fun data_usage :: "step_data \<Rightarrow> usage option" where
  "data_usage (Provider_data p) = usage p"
| "data_usage (Synthesis_data v s x) = None"
| "data_usage (Report_data r) = None"

fun elem_citations :: "hist_elem \<Rightarrow> citation_elem list option" where
  "elem_citations (Hist_result r) = data_citations (data r)"
| "elem_citations Hist_blank = None"

fun elem_usage :: "hist_elem \<Rightarrow> usage option" where
  "elem_usage (Hist_result r) = data_usage (data r)"
| "elem_usage Hist_blank = None"

text \<open>\<^verbatim>\<open>{step: stepData.step, service: stepData.service, confidence: stepData.metadata?.confidence || 0.8}\<close>\<close>

fun summary_of :: "hist_elem \<Rightarrow> step_summary" where
  "summary_of (Hist_result r) =
     \<lparr>summary_step = Some (step r), summary_service = Some (service r),
      summary_confidence =
        (case metadata_confidence (metadata r) of
           None \<Rightarrow> 0.8
         | Some c \<Rightarrow> (if c \<noteq> 0 then c else 0.8))\<rparr>"
| "summary_of Hist_blank =
     \<lparr>summary_step = None, summary_service = None, summary_confidence = 0.8\<rparr>"

text \<open>The report before the aggregation; \<open>now\<close> is \<^verbatim>\<open>new Date().toISOString()\<close>.\<close>

definition initial_report :: "string \<Rightarrow> js_value \<Rightarrow> final_report" where
  "initial_report now q =
     \<lparr>query = q, timestamp = now, totalSources = 0, totalTokens = 0,
      researchSteps_summary = [], keyFindings = [],
      knowledgeGraph = \<lparr>nodes = [], edges = [], topics = []\<rparr>,
      qualityMetrics = \<lparr>factualAccuracy = 0.95, sourceReliability = 0.88,
                        analysisDepth = 0.92, synthesisQuality = 0.9\<rparr>,
      recommendations = recommendations_fixed\<rparr>"

text \<open>The body of \<^verbatim>\<open>allData.forEach((stepData) => ...)\<close>, which updates the report.\<close>

definition aggregate_step :: "final_report \<Rightarrow> hist_elem \<Rightarrow> final_report" where
  "aggregate_step report stepData =
     (let report1 = (case elem_citations stepData of
                       Some cs \<Rightarrow> report\<lparr>totalSources := totalSources report + length cs\<rparr>
                     | None \<Rightarrow> report);
          report2 = (case elem_usage stepData of
                       Some u \<Rightarrow> report1\<lparr>totalTokens := totalTokens report1 + or_zero (total_tokens u)\<rparr>
                     | None \<Rightarrow> report1)
      in report2\<lparr>researchSteps_summary := researchSteps_summary report2 @ [summary_of stepData]\<rparr>)"

definition generateFinalReport :: "string \<Rightarrow> js_value \<Rightarrow> history \<Rightarrow> final_report" where
  "generateFinalReport now q allData =
     (case allData of
        Prev_array steps \<Rightarrow> foldl aggregate_step (initial_report now q) steps
      | Prev_null \<Rightarrow> initial_report now q)"

section \<open>The handler\<close>

text \<open>
  What one invocation of the handler gets from outside: the outcome of the \<^verbatim>\<open>fetch\<close> of
  each adapter, the values of \<^verbatim>\<open>Math.random()\<close>, the clock, which of two rejected
  promises of step 3 rejected first, and the property names that the runtime's
  \<^verbatim>\<open>Array.prototype\<close> chain defines (\<^verbatim>\<open>map\<close>, \<^verbatim>\<open>push\<close>, \<^verbatim>\<open>constructor\<close>, ...), a table that
  is the runtime's and not the repository's.
\<close>

record env =
  perplexity_fetch :: fetch_outcome
  gemini_fetch :: fetch_outcome
  openai_fetch :: fetch_outcome
  math_random :: "nat \<Rightarrow> real"
  gemini_rejects_first :: bool
  clock :: string
  inherited :: "string \<Rightarrow> bool"

text \<open>
  The \<^verbatim>\<open>step\<close> of the request body is read as a property key: \<open>Step_missing\<close> when the
  body has no such field, \<open>Step_number\<close> for a JSON number, and \<open>Step_key k\<close> for any
  other value, given by the key \<open>k\<close> that JavaScript converts it to (a string is its
  own key, \<^verbatim>\<open>null\<close> is \<^verbatim>\<open>"null"\<close>, \<^verbatim>\<open>true\<close> is \<^verbatim>\<open>"true"\<close>, \<^verbatim>\<open>[2]\<close> is \<^verbatim>\<open>"2"\<close>).
\<close>

datatype step_value = Step_missing | Step_number real | Step_key string

record request_body =
  body_query :: js_value
  body_step :: step_value
  body_previousData :: history

text \<open>\<open>req_json\<close> is \<^verbatim>\<open>await req.json()\<close>: \<open>Inl\<close> when it rejects or the body has no fields to take.\<close>

record request =
  req_method :: string
  req_json :: "string + request_body"

datatype body =
  Text_ok
| Json_query_required
| Json_error error
| Json_result step_result
| Json_empty

datatype response = Response body nat

definition researchSteps :: "string list" where
  "researchSteps =
     [''initial_research'', ''deep_analysis'', ''classification_tagging'',
      ''synthesis_validation'', ''final_report'']"

text \<open>
  \<^verbatim>\<open>researchSteps[step]\<close> is a property lookup on the array. A number is an index when it
  is a natural number; of the strings, the decimal numerals are. Any other key finds
  \<^verbatim>\<open>length\<close> (the number 5), a property of the prototype chain (a function or an
  object), or nothing.
\<close>

datatype lookup = Element string | Property | Undefined

definition index_of_number :: "real \<Rightarrow> nat option" where
  "index_of_number x =
     (if 0 \<le> x \<and> x = of_int \<lfloor>x\<rfloor> \<and> nat \<lfloor>x\<rfloor> < length researchSteps
      then Some (nat \<lfloor>x\<rfloor>) else None)"

definition index_of_key :: "string \<Rightarrow> nat option" where
  "index_of_key k =
     (if k = ''0'' then Some 0 else if k = ''1'' then Some 1 else if k = ''2'' then Some 2
      else if k = ''3'' then Some 3 else if k = ''4'' then Some 4 else None)"

definition lookup_step :: "(string \<Rightarrow> bool) \<Rightarrow> step_value \<Rightarrow> lookup" where
  "lookup_step proto s =
     (case s of
        Step_missing \<Rightarrow> Element (researchSteps ! 0)
      | Step_number x \<Rightarrow>
          (case index_of_number x of Some i \<Rightarrow> Element (researchSteps ! i) | None \<Rightarrow> Undefined)
      | Step_key k \<Rightarrow>
          (case index_of_key k of
             Some i \<Rightarrow> Element (researchSteps ! i)
           | None \<Rightarrow> if k = ''length'' \<or> proto k then Property else Undefined))"

text \<open>
  \<^verbatim>\<open>const currentStep = researchSteps[step] || "initial_research"\<close>. A name of the array
  and a property are truthy. \<open>None\<close> is a value that is none of the five names.
\<close>

definition currentStep :: "(string \<Rightarrow> bool) \<Rightarrow> step_value \<Rightarrow> string option" where
  "currentStep proto s =
     (case lookup_step proto s of
        Element name \<Rightarrow> Some name
      | Property \<Rightarrow> None
      | Undefined \<Rightarrow> Some ''initial_research'')"

text \<open>\<^verbatim>\<open>perplexityResponse.citations?.length || 0\<close> and \<^verbatim>\<open>perplexityResponse.usage?.total_tokens || 0\<close>\<close>

definition sourcesFound :: "provider_response \<Rightarrow> nat" where
  "sourcesFound p = (case citations p of Some cs \<Rightarrow> length cs | None \<Rightarrow> 0)"

definition tokensUsed :: "provider_response \<Rightarrow> real" where
  "tokensUsed p = (case usage p of Some u \<Rightarrow> or_zero (total_tokens u) | None \<Rightarrow> 0)"

text \<open>The five branches. An exception of an adapter call leaves the branch (\<open>Inl\<close>).\<close>

definition step_initial_research :: "env \<Rightarrow> error + step_result" where
  "step_initial_research e =
     (case callPerplexity (perplexity_fetch e) (math_random e) of
        Inl err \<Rightarrow> Inl err
      | Inr perplexityResponse \<Rightarrow>
          Inr (Step_result 0 stepName_initial_research ''Perplexity''
                 (Provider_data perplexityResponse) None (Some 1) 20
                 aiThoughts_initial_research
                 (Research_metadata (sourcesFound perplexityResponse)
                    (tokensUsed perplexityResponse) 0.75)))"

definition step_deep_analysis :: "env \<Rightarrow> history \<Rightarrow> error + step_result" where
  "step_deep_analysis e prev =
     (case callGemini (gemini_fetch e) of
        Inl err \<Rightarrow> Inl err
      | Inr geminiResponse \<Rightarrow>
          Inr (Step_result 1 stepName_deep_analysis ''Gemini''
                 (Provider_data geminiResponse) (Some prev) (Some 2) 40
                 aiThoughts_deep_analysis
                 (Analysis_metadata 15 8 0.85)))"

definition step_classification_tagging :: "env \<Rightarrow> history \<Rightarrow> error + step_result" where
  "step_classification_tagging e prev =
     (case callOpenAI (openai_fetch e) of
        Inl err \<Rightarrow> Inl err
      | Inr openaiResponse \<Rightarrow>
          Inr (Step_result 2 stepName_classification_tagging ''OpenAI GPT-4''
                 (Provider_data openaiResponse) (Some prev) (Some 3) 65
                 aiThoughts_classification_tagging
                 (Tagging_metadata 25 6 0.9)))"

text \<open>
  \<^verbatim>\<open>await Promise.all([a, b])\<close>: both values when both promises fulfil; otherwise it
  rejects with the error of the promise that rejected first, and the value of the
  other promise is dropped.
\<close>

definition promise_all :: "bool \<Rightarrow> error + 'a \<Rightarrow> error + 'b \<Rightarrow> error + 'a \<times> 'b" where
  "promise_all second_rejects_first a b =
     (case a of
        Inr x \<Rightarrow> (case b of Inr y \<Rightarrow> Inr (x, y) | Inl e2 \<Rightarrow> Inl e2)
      | Inl e1 \<Rightarrow>
          (case b of
             Inr y \<Rightarrow> Inl e1
           | Inl e2 \<Rightarrow> Inl (if second_rejects_first then e2 else e1)))"

definition step_synthesis_validation :: "env \<Rightarrow> history \<Rightarrow> error + step_result" where
  "step_synthesis_validation e prev =
     (case promise_all (gemini_rejects_first e)
             (callPerplexity (perplexity_fetch e) (math_random e))
             (callGemini (gemini_fetch e)) of
        Inl err \<Rightarrow> Inl err
      | Inr (perplexityValidation, geminiSynthesis) \<Rightarrow>
          Inr (Step_result 3 stepName_synthesis_validation ''Multi-AI (Perplexity + Gemini)''
                 (Synthesis_data perplexityValidation geminiSynthesis
                    (generateCrossReferences prev))
                 (Some prev) (Some 4) 85
                 aiThoughts_synthesis_validation
                 (Synthesis_metadata 45 3 0.95)))"

definition step_final_report :: "env \<Rightarrow> js_value \<Rightarrow> history \<Rightarrow> error + step_result" where
  "step_final_report e q prev =
     (let finalReport = generateFinalReport (clock e) q prev
      in Inr (Step_result 4 stepName_final_report ''Research Orchestrator''
                (Report_data finalReport) (Some prev) None 100
                aiThoughts_final_report
                (Report_metadata (totalSources finalReport)
                   (or_zero (Some (totalTokens finalReport))) 0.98)))"

text \<open>
  The chain of \<^verbatim>\<open>if (currentStep === "...") ... else if ...\<close>. \<open>Inr None\<close> is the
  \<^verbatim>\<open>result = {}\<close> that no branch has replaced.
\<close>

definition run_step :: "env \<Rightarrow> js_value \<Rightarrow> history \<Rightarrow> string option \<Rightarrow> error + step_result option" where
  "run_step e q prev cur =
     (if cur = Some ''initial_research'' then map_sum id Some (step_initial_research e)
      else if cur = Some ''deep_analysis'' then map_sum id Some (step_deep_analysis e prev)
      else if cur = Some ''classification_tagging'' then
        map_sum id Some (step_classification_tagging e prev)
      else if cur = Some ''synthesis_validation'' then
        map_sum id Some (step_synthesis_validation e prev)
      else if cur = Some ''final_report'' then map_sum id Some (step_final_report e q prev)
      else Inr None)"

text \<open>
  The function given to \<^verbatim>\<open>Deno.serve\<close>. Every exception inside the \<^verbatim>\<open>try\<close> ends in the
  one \<^verbatim>\<open>catch\<close>, which answers with status 500 and the message of the error.
\<close>

definition handler :: "env \<Rightarrow> request \<Rightarrow> response" where
  "handler e req =
     (if req_method req = ''OPTIONS'' then Response Text_ok 200
      else
        (case req_json req of
           Inl m \<Rightarrow> Response (Json_error (Thrown m)) 500
         | Inr b \<Rightarrow>
             if \<not> truthy (body_query b) then Response Json_query_required 400
             else
               (case run_step e (body_query b) (body_previousData b)
                       (currentStep (inherited e) (body_step b)) of
                  Inl err \<Rightarrow> Response (Json_error err) 500
                | Inr None \<Rightarrow> Response Json_empty 200
                | Inr (Some result) \<Rightarrow> Response (Json_result result) 200)))"

section \<open>The driver of the client\<close>

text \<open>
  \<^verbatim>\<open>executeMultiStepResearch\<close> of the client component calls the function once per
  step and keeps what it got in \<^verbatim>\<open>allStepData\<close>. The model keeps that data flow and
  leaves the display state out. \<^verbatim>\<open>supabase.functions.invoke\<close> reports an error for a
  status outside 200 to 299, and the body as data otherwise.
\<close>

fun data_of_body :: "body \<Rightarrow> hist_elem" where
  "data_of_body (Json_result r) = Hist_result r"
| "data_of_body b = Hist_blank"

text \<open>
  The \<^verbatim>\<open>try { ... if (error) throw error; allStepData.push(data); ... } catch (error) { ... }\<close>
  of one round of the loop.
\<close>

definition invoke_step :: "env \<Rightarrow> string \<Rightarrow> hist_elem list \<Rightarrow> nat \<Rightarrow> hist_elem list" where
  "invoke_step e q allStepData stepIndex =
     (case handler e
             \<lparr>req_method = ''POST'',
              req_json = Inr \<lparr>body_query = JStr q, body_step = Step_number (real stepIndex),
                              body_previousData =
                                (if allStepData \<noteq> [] then Prev_array allStepData else Prev_null)\<rparr>\<rparr> of
        Response b status \<Rightarrow>
          if 200 \<le> status \<and> status \<le> 299 then allStepData @ [data_of_body b]
          else allStepData)"

text \<open>
  \<^verbatim>\<open>for (let stepIndex = 0; stepIndex < researchSteps.length; stepIndex++)\<close>, over the five
  steps of the client's own table; \<open>envs i\<close> is the outside world at the call of step \<open>i\<close>.
\<close>

definition executeMultiStepResearch :: "(nat \<Rightarrow> env) \<Rightarrow> string \<Rightarrow> hist_elem list" where
  "executeMultiStepResearch envs q =
     foldl (\<lambda>allStepData stepIndex. invoke_step (envs stepIndex) q allStepData stepIndex)
       [] [0..<5]"

section \<open>Notions of the specification\<close>

text \<open>
  The error, if any, of the adapter call or calls that step \<open>i\<close> makes in the
  environment \<open>e\<close>. Step 3 joins two calls; step 4 makes none.
\<close>

definition adapter_failure :: "env \<Rightarrow> nat \<Rightarrow> error option" where
  "adapter_failure e i =
     (if i = 0 then
        (case callPerplexity (perplexity_fetch e) (math_random e) of
           Inl err \<Rightarrow> Some err | Inr p \<Rightarrow> None)
      else if i = 1 then
        (case callGemini (gemini_fetch e) of Inl err \<Rightarrow> Some err | Inr p \<Rightarrow> None)
      else if i = 2 then
        (case callOpenAI (openai_fetch e) of Inl err \<Rightarrow> Some err | Inr p \<Rightarrow> None)
      else if i = 3 then
        (case promise_all (gemini_rejects_first e)
                (callPerplexity (perplexity_fetch e) (math_random e))
                (callGemini (gemini_fetch e)) of
           Inl err \<Rightarrow> Some err | Inr p \<Rightarrow> None)
      else None)"




text \<open>
  What the specification sums in the final report: the length of an element's
  \<^verbatim>\<open>data.citations\<close> and its \<^verbatim>\<open>data.usage.total_tokens\<close>, each zero when the element has
  no such field.
\<close>

definition citations_length :: "hist_elem \<Rightarrow> nat" where
  "citations_length s = (case elem_citations s of Some cs \<Rightarrow> length cs | None \<Rightarrow> 0)"

definition usage_total_tokens :: "hist_elem \<Rightarrow> real" where
  "usage_total_tokens s =
     (case elem_usage s of
        Some u \<Rightarrow> (case total_tokens u of Some t \<Rightarrow> t | None \<Rightarrow> 0)
      | None \<Rightarrow> 0)"

text \<open>The \<^verbatim>\<open>step\<close> field of a history element, if it has one.\<close>

fun elem_step :: "hist_elem \<Rightarrow> nat option" where
  "elem_step (Hist_result r) = Some (step r)"
| "elem_step Hist_blank = None"

section \<open>Concrete inputs\<close>

text \<open>The values at which the theorems below are evaluated.\<close>

definition sample_citation :: "js_value \<Rightarrow> citation" where
  "sample_citation u =
     \<lparr>url = u, title = JStr ''title'', snippet = JStr ''snippet'', source = JUndefined,
      relevanceScore = JUndefined, trustScore = JUndefined, category = JUndefined\<rparr>"

text \<open>\<^verbatim>\<open>Math.random()\<close> returning the same value \<open>r\<close> at every call.\<close>

definition constant_random :: "real \<Rightarrow> nat \<Rightarrow> real" where
  "constant_random r n = r"

text \<open>A body whose citations, if any, are the objects \<open>cs\<close>, with \<open>t\<close> tokens.\<close>

definition sample_response :: "citation list option \<Rightarrow> real \<Rightarrow> provider_response" where
  "sample_response cs t =
     \<lparr>citations = map_option (map Citation_object) cs,
      usage = Some \<lparr>total_tokens = Some t\<rparr>, rest = []\<rparr>"


definition ok_fetch :: "provider_response \<Rightarrow> fetch_outcome" where
  "ok_fetch p = Fetch_response True 200 (Inr p)"

definition failed_fetch :: "nat \<Rightarrow> fetch_outcome" where
  "failed_fetch status = Fetch_response False status (Inl [])"

definition sample_env :: "fetch_outcome \<Rightarrow> fetch_outcome \<Rightarrow> fetch_outcome \<Rightarrow> env" where
  "sample_env p g o' =
     \<lparr>perplexity_fetch = p, gemini_fetch = g, openai_fetch = o',
      math_random = constant_random (1 / 2), gemini_rejects_first = False,
      clock = ''2025-01-01T00:00:00.000Z'',
      inherited = (\<lambda>k. k = ''map'' \<or> k = ''push'' \<or> k = ''constructor'')\<rparr>"

definition post_request :: "js_value \<Rightarrow> step_value \<Rightarrow> history \<Rightarrow> request" where
  "post_request q s prev =
     \<lparr>req_method = ''POST'',
      req_json = Inr \<lparr>body_query = q, body_step = s, body_previousData = prev\<rparr>\<rparr>"

text \<open>Two environments in which every adapter call succeeds, with different bodies.\<close>

definition all_ok_env :: env where
  "all_ok_env =
     sample_env (ok_fetch (sample_response (Some [sample_citation JUndefined]) 120))
       (ok_fetch (sample_response None 0)) (ok_fetch (sample_response None 80))"

definition other_ok_env :: env where
  "other_ok_env =
     sample_env (ok_fetch (sample_response None 7))
       (ok_fetch (sample_response None 11)) (ok_fetch (sample_response None 13))"


text \<open>
  A history as in the specification's scenario: the result of step 0 with five
  citations and 120 tokens, the result of step 2 with no citations and 80 tokens.
\<close>

definition step0_result :: step_result where
  "step0_result =
     Step_result 0 stepName_initial_research ''Perplexity''
       (Provider_data
          (sample_response (Some (replicate 5 (sample_citation (JStr ''https://a.example/1''))))
             120))
       None (Some 1) 20 aiThoughts_initial_research (Research_metadata 5 120 0.75)"

definition step2_result :: step_result where
  "step2_result =
     Step_result 2 stepName_classification_tagging ''OpenAI GPT-4''
       (Provider_data (sample_response (Some []) 80))
       (Some (Prev_array [Hist_result step0_result])) (Some 3) 65
       aiThoughts_classification_tagging (Tagging_metadata 25 6 0.9)"

text \<open>An environment in which every adapter call fails.\<close>

definition all_failed_env :: env where
  "all_failed_env = sample_env (failed_fetch 500) (failed_fetch 503) (Fetch_rejects ''network'')"


definition gemini_down_env :: env where
  "gemini_down_env =
     sample_env (ok_fetch (sample_response (Some [sample_citation JUndefined]) 120))
       (failed_fetch 503) (ok_fetch (sample_response None 80))"


text \<open>A run in which only the call of step 3 meets the failing reasoning provider.\<close>

definition gemini_down_at_3 :: "nat \<Rightarrow> env" where
  "gemini_down_at_3 stepIndex = (if stepIndex = 3 then gemini_down_env else all_ok_env)"



section \<open>The citation post-processing\<close>












text \<open>
  With \<^verbatim>\<open>Math.random()\<close> in \<open>[0, 1)\<close> the trust score stays in \<open>(0.6, 0.9]\<close>, the
  relevance score never falls below \<open>0.3\<close>, and from the second citation on it stays
  below \<open>1\<close>.
\<close>

lemma trustScore_bounds:
  assumes "0 \<le> r2" "r2 < 1"
  shows "\<exists>t. trustScore (enhance_citation r1 r2 c i) = JNum t \<and> 0.6 < t \<and> t \<le> 0.9"
  using assms by (simp add: enhance_citation_def max_def)

lemma relevanceScore_lower:
  "\<exists>s. relevanceScore (enhance_citation r1 r2 c i) = JNum s \<and> 0.3 \<le> s"
  by (simp add: enhance_citation_def max_def)

lemma relevanceScore_upper_later:
  assumes "0 \<le> r1" "r1 < 1" "0 < i"
  shows "\<exists>s. relevanceScore (enhance_citation r1 r2 c i) = JNum s \<and> s < 1"
proof -
  from assms(3) have "1 \<le> real i" by simp
  with assms(2) show ?thesis by (simp add: enhance_citation_def max_def)
qed

section \<open>The handler, branch by branch\<close>

lemma below_five: "i < 5 \<Longrightarrow> i = 0 \<or> i = 1 \<or> i = 2 \<or> i = 3 \<or> i = (4::nat)"
  by arith

lemma index_of_number_real: "index_of_number (real i) = (if i < 5 then Some i else None)"
  by (simp add: index_of_number_def researchSteps_def)

lemma currentStep_number:
  "i < 5 \<Longrightarrow> currentStep proto (Step_number (real i)) = Some (researchSteps ! i)"
  by (simp add: currentStep_def lookup_step_def index_of_number_real)

lemma handler_post:
  "truthy q \<Longrightarrow>
   handler e (post_request q s prev) =
     (case run_step e q prev (currentStep (inherited e) s) of
        Inl err \<Rightarrow> Response (Json_error err) 500
      | Inr None \<Rightarrow> Response Json_empty 200
      | Inr (Some result) \<Rightarrow> Response (Json_result result) 200)"
  by (simp add: handler_def post_request_def)

lemma researchSteps_nth:
  "researchSteps ! 0 = ''initial_research''"
  "researchSteps ! Suc 0 = ''deep_analysis''"
  "researchSteps ! 2 = ''classification_tagging''"
  "researchSteps ! 3 = ''synthesis_validation''"
  "researchSteps ! 4 = ''final_report''"
  by (simp_all add: researchSteps_def numeral_nat)

lemma run_step_branches:
  "run_step e q prev (Some ''initial_research'') = map_sum id Some (step_initial_research e)"
  "run_step e q prev (Some ''deep_analysis'') = map_sum id Some (step_deep_analysis e prev)"
  "run_step e q prev (Some ''classification_tagging'') =
     map_sum id Some (step_classification_tagging e prev)"
  "run_step e q prev (Some ''synthesis_validation'') =
     map_sum id Some (step_synthesis_validation e prev)"
  "run_step e q prev (Some ''final_report'') = map_sum id Some (step_final_report e q prev)"
  by (simp_all add: run_step_def)

lemma run_step_failure:
  assumes "i < 5" "adapter_failure e i = Some err"
  shows "run_step e q prev (Some (researchSteps ! i)) = Inl err"
proof -
  consider "i = 0" | "i = 1" | "i = 2" | "i = 3" | "i = 4"
    using below_five [OF assms(1)] by blast
  then show ?thesis
  proof cases
    case 1
    with assms(2) show ?thesis
      by (simp add: researchSteps_nth run_step_branches adapter_failure_def
          step_initial_research_def split: sum.splits)
  next
    case 2
    with assms(2) show ?thesis
      by (simp add: researchSteps_nth run_step_branches adapter_failure_def
          step_deep_analysis_def split: sum.splits)
  next
    case 3
    with assms(2) show ?thesis
      by (simp add: researchSteps_nth run_step_branches adapter_failure_def
          step_classification_tagging_def split: sum.splits)
  next
    case 4
    with assms(2) show ?thesis
      by (simp add: researchSteps_nth run_step_branches adapter_failure_def
          step_synthesis_validation_def split: sum.splits)
  next
    case 5
    with assms(2) show ?thesis
      by (simp add: adapter_failure_def)
  qed
qed

lemma run_step_success:
  assumes "i < 5" "adapter_failure e i = None"
  shows "\<exists>r. run_step e q prev (Some (researchSteps ! i)) = Inr (Some r) \<and> step r = i \<and>
           progress r = [20, 40, 65, 85, 100] ! i \<and>
           nextStep r = (if i = 4 then None else Some (i + 1))"
proof -
  consider "i = 0" | "i = 1" | "i = 2" | "i = 3" | "i = 4"
    using below_five [OF assms(1)] by blast
  then show ?thesis
  proof cases
    case 1
    with assms(2) show ?thesis
      by (simp add: researchSteps_nth run_step_branches adapter_failure_def
          step_initial_research_def split: sum.splits)
  next
    case 2
    with assms(2) show ?thesis
      by (simp add: researchSteps_nth run_step_branches adapter_failure_def
          step_deep_analysis_def split: sum.splits)
  next
    case 3
    with assms(2) show ?thesis
      by (simp add: researchSteps_nth run_step_branches adapter_failure_def
          step_classification_tagging_def split: sum.splits)
  next
    case 4
    with assms(2) show ?thesis
      by (simp add: researchSteps_nth run_step_branches adapter_failure_def
          step_synthesis_validation_def split: sum.splits prod.splits)
  next
    case 5
    then show ?thesis
      by (simp add: researchSteps_nth run_step_branches step_final_report_def Let_def)
  qed
qed


lemma currentStep_key:
  "currentStep proto (Step_key k) =
     (case index_of_key k of
        Some i \<Rightarrow> Some (researchSteps ! i)
      | None \<Rightarrow> if k = ''length'' \<or> proto k then None else Some ''initial_research'')"
  by (simp add: currentStep_def lookup_step_def split: option.splits)

lemma currentStep_agree:
  assumes "currentStep p1 s = Some n1" "currentStep p2 s = Some n2"
  shows "n1 = n2"
proof (cases s)
  case Step_missing
  with assms show ?thesis by (simp add: currentStep_def lookup_step_def)
next
  case (Step_number x)
  with assms show ?thesis
    by (cases "index_of_number x") (simp_all add: currentStep_def lookup_step_def)
next
  case (Step_key k)
  show ?thesis
  proof (cases "index_of_key k")
    case None
    with assms Step_key show ?thesis
      by (simp add: currentStep_key split: if_splits)
  next
    case (Some i)
    with assms Step_key show ?thesis by (simp add: currentStep_key)
  qed
qed

lemma index_of_number_Some: "index_of_number x = Some i \<Longrightarrow> i < 5 \<and> x = real i"
  by (auto simp: index_of_number_def researchSteps_def split: if_splits)

lemma index_of_key_Some: "index_of_key k = Some i \<Longrightarrow> i < 5"
  by (auto simp: index_of_key_def split: if_splits)

lemma currentStep_Some:
  assumes "currentStep proto s = Some name"
  shows "\<exists>i<5. name = researchSteps ! i"
proof (cases "lookup_step proto s")
  case (Element n)
  with assms have name: "name = n" by (simp add: currentStep_def)
  show ?thesis
  proof (cases s)
    case Step_missing
    with Element name have "name = researchSteps ! 0" by (simp add: lookup_step_def)
    then show ?thesis by (intro exI [of _ 0]) simp
  next
    case (Step_number x)
    with Element name obtain i where "index_of_number x = Some i" "name = researchSteps ! i"
      by (auto simp: lookup_step_def split: option.splits)
    with index_of_number_Some [of x i] show ?thesis by blast
  next
    case (Step_key k)
    with Element name obtain i where "index_of_key k = Some i" "name = researchSteps ! i"
      by (auto simp: lookup_step_def split: option.splits if_splits)
    with index_of_key_Some [of k i] show ?thesis by blast
  qed
next
  case Property
  with assms show ?thesis by (simp add: currentStep_def)
next
  case Undefined
  with assms have "name = researchSteps ! 0" by (simp add: currentStep_def researchSteps_nth)
  then show ?thesis by (intro exI [of _ 0]) simp
qed

lemma run_step_wrapping:
  assumes "run_step e1 q1 prev1 (Some name) = Inr (Some r1)"
    and "run_step e2 q2 prev2 (Some name) = Inr (Some r2)"
    and "name = researchSteps ! i" "i < 5"
  shows "step r1 = step r2 \<and> stepName r1 = stepName r2 \<and> service r1 = service r2 \<and>
         progress r1 = progress r2"
proof -
  consider "i = 0" | "i = 1" | "i = 2" | "i = 3" | "i = 4"
    using below_five [OF assms(4)] by blast
  then show ?thesis
  proof cases
    case 1
    with assms(1,2,3) show ?thesis
      by (auto simp: researchSteps_nth run_step_branches step_initial_research_def
          split: sum.splits)
  next
    case 2
    with assms(1,2,3) show ?thesis
      by (auto simp: researchSteps_nth run_step_branches step_deep_analysis_def
          split: sum.splits)
  next
    case 3
    with assms(1,2,3) show ?thesis
      by (auto simp: researchSteps_nth run_step_branches step_classification_tagging_def
          split: sum.splits)
  next
    case 4
    with assms(1,2,3) show ?thesis
      by (auto simp: researchSteps_nth run_step_branches step_synthesis_validation_def
          split: sum.splits prod.splits)
  next
    case 5
    with assms(1,2,3) show ?thesis
      by (auto simp: researchSteps_nth run_step_branches step_final_report_def Let_def)
  qed
qed

lemma handler_result:
  assumes "handler e req = Response (Json_result r) st"
  shows "\<exists>b. req_json req = Inr b \<and> truthy (body_query b) \<and> st = 200 \<and>
           run_step e (body_query b) (body_previousData b)
             (currentStep (inherited e) (body_step b)) = Inr (Some r)"
proof (cases "req_method req = ''OPTIONS''")
  case True
  with assms show ?thesis by (simp add: handler_def)
next
  case options: False
  show ?thesis
  proof (cases "req_json req")
    case (Inl m)
    with assms options show ?thesis by (simp add: handler_def)
  next
    case (Inr b)
    show ?thesis
    proof (cases "truthy (body_query b)")
      case False
      with assms options Inr show ?thesis by (simp add: handler_def)
    next
      case True
      with assms options Inr show ?thesis
        by (simp add: handler_def split: sum.splits option.splits)
    qed
  qed
qed

lemma run_step_None: "run_step e q prev None = Inr None"
  by (simp add: run_step_def)

lemma adapter_failure_all_ok: "adapter_failure all_ok_env i = None"
  by (simp add: adapter_failure_def all_ok_env_def sample_env_def ok_fetch_def
      callPerplexity_def enhance_element_def callGemini_def callOpenAI_def promise_all_def sample_response_def)

lemma adapter_failure_other_ok: "adapter_failure other_ok_env i = None"
  by (simp add: adapter_failure_def other_ok_env_def sample_env_def ok_fetch_def
      callPerplexity_def enhance_element_def callGemini_def callOpenAI_def promise_all_def sample_response_def)

lemma handler_success:
  assumes "i < 5" and "truthy q" and "adapter_failure e i = None"
  shows "\<exists>r. handler e (post_request q (Step_number (real i)) prev) =
              Response (Json_result r) 200"
  using run_step_success [OF assms(1,3), of q prev] assms(1,2)
  by (auto simp: handler_post currentStep_number)




lemma handler_failure:
  assumes "i < 5" and "truthy q" and "adapter_failure e i = Some err"
  shows "handler e (post_request q (Step_number (real i)) prev) = Response (Json_error err) 500"
  using run_step_failure [OF assms(1,3), of q prev] assms(1,2)
  by (simp add: handler_post currentStep_number)

section \<open>Progress checkpoints and the next step\<close>






section \<open>The wrapping metadata is deterministic\<close>

text \<open>
  Claim C8. Two invocations with the same request (the same query, step and
  \<^verbatim>\<open>previousData\<close>), in any two environments, that both return a result agree on
  \<^verbatim>\<open>step\<close>, \<^verbatim>\<open>stepName\<close>, \<^verbatim>\<open>service\<close> and \<^verbatim>\<open>progress\<close>; the provider bodies may differ.
\<close>

theorem wrapping_deterministic:
  assumes "handler e1 req = Response (Json_result r1) st1"
    and "handler e2 req = Response (Json_result r2) st2"
  shows "step r1 = step r2 \<and> stepName r1 = stepName r2 \<and> service r1 = service r2 \<and>
         progress r1 = progress r2"
proof -
  from handler_result [OF assms(1)] obtain b where
    b: "req_json req = Inr b"
    and r1: "run_step e1 (body_query b) (body_previousData b)
               (currentStep (inherited e1) (body_step b)) = Inr (Some r1)"
    by blast
  from handler_result [OF assms(2)] b have
    r2: "run_step e2 (body_query b) (body_previousData b)
               (currentStep (inherited e2) (body_step b)) = Inr (Some r2)"
    by auto
  obtain n1 where n1: "currentStep (inherited e1) (body_step b) = Some n1"
    using r1 by (cases "currentStep (inherited e1) (body_step b)") (simp_all add: run_step_None)
  obtain n2 where n2: "currentStep (inherited e2) (body_step b) = Some n2"
    using r2 by (cases "currentStep (inherited e2) (body_step b)") (simp_all add: run_step_None)
  from currentStep_agree [OF n1 n2] have eq: "n2 = n1" by simp
  from currentStep_Some [OF n1] obtain i where i: "i < 5" "n1 = researchSteps ! i" by blast
  from r1 n1 have s1: "run_step e1 (body_query b) (body_previousData b) (Some n1) = Inr (Some r1)"
    by simp
  from r2 n2 eq have s2: "run_step e2 (body_query b) (body_previousData b) (Some n1) = Inr (Some r2)"
    by simp
  from run_step_wrapping [OF s1 s2 i(2) i(1)] show ?thesis .
qed

theorem wrapping_deterministic_witness:
  "\<exists>r1 r2.
     handler all_ok_env (post_request (JStr ''climate policy'') (Step_number 2) Prev_null) =
       Response (Json_result r1) 200 \<and>
     handler other_ok_env (post_request (JStr ''climate policy'') (Step_number 2) Prev_null) =
       Response (Json_result r2) 200 \<and>
     step r1 = step r2 \<and> stepName r1 = stepName r2 \<and> service r1 = service r2 \<and>
     progress r1 = progress r2"
proof -
  have i: "(2::nat) < 5" and q: "truthy (JStr ''climate policy'')" by simp_all
  from handler_success [OF i q adapter_failure_all_ok, of Prev_null] obtain r1 where
    r1: "handler all_ok_env (post_request (JStr ''climate policy'') (Step_number 2) Prev_null) =
           Response (Json_result r1) 200"
    by auto
  from handler_success [OF i q adapter_failure_other_ok, of Prev_null] obtain r2 where
    r2: "handler other_ok_env (post_request (JStr ''climate policy'') (Step_number 2) Prev_null) =
           Response (Json_result r2) 200"
    by auto
  from wrapping_deterministic [OF r1 r2] r1 r2 show ?thesis by blast
qed

section \<open>Scores and urls of the citations\<close>

text \<open>
  Claim C2. After the post-processing every \<^verbatim>\<open>relevanceScore\<close> and \<^verbatim>\<open>trustScore\<close> should
  lie in \<open>[0, 1]\<close>, whatever \<^verbatim>\<open>Math.random()\<close> returns, also at position 0. The trust
  score does (\<open>trustScore_bounds\<close>), and so does the relevance score from position 1
  on (\<open>relevanceScore_lower\<close>, \<open>relevanceScore_upper_later\<close>). At position 0 the code
  computes \<^verbatim>\<open>Math.max(0.3, 1 - 0 * 0.1 + (Math.random() * 0.2 - 0.1))\<close> with no upper
  bound: when \<^verbatim>\<open>Math.random()\<close> returns \<open>3/4\<close>, the first citation gets the relevance
  score \<open>21/20\<close>, which is above 1.
\<close>

theorem first_citation_relevance_above_one:
  "(0::real) \<le> 3 / 4 \<and> (3 / 4 :: real) < 1 \<and>
   callPerplexity
     (ok_fetch (sample_response (Some [sample_citation (JStr ''https://a.example/1'')]) 120))
     (constant_random (3 / 4)) =
   Inr (sample_response
          (Some [(sample_citation (JStr ''https://a.example/1''))
                   \<lparr>relevanceScore := JNum (21 / 20), trustScore := JNum (27 / 40),
                    category := JStr ''web''\<rparr>]) 120) \<and>
   \<not> (21 / 20 \<le> (1::real))"
  by (simp add: callPerplexity_def enhance_element_def ok_fetch_def sample_response_def sample_citation_def
      constant_random_def enhance_citation_def js_or_def)




section \<open>The cross references\<close>

text \<open>
  Claim C7, as stated: for every history the synthesizer returns the catalog of three
  records. The function starts with \<^verbatim>\<open>if (!data) return [];\<close>, and the driver sends
  \<^verbatim>\<open>null\<close> for a history without elements: for \<^verbatim>\<open>null\<close> the result is the empty list.
\<close>

theorem crossReferences_of_null:
  "generateCrossReferences (Prev_null :: history) = [] \<and>
   length (generateCrossReferences (Prev_null :: history)) \<noteq> 3"
  by (simp add: generateCrossReferences_def)

text \<open>
  Claim C7, amended. For every history that is an array (of any content, also the
  empty array) the synthesizer returns the same three records \<open>fact_verification\<close>,
  \<open>semantic_consistency\<close>, \<open>classification_accuracy\<close> with the confidences 0.92, 0.88,
  0.95 and the provider names of the source; for \<^verbatim>\<open>null\<close> it returns the empty list.
\<close>

theorem crossReferences_fixed_catalog:
  "generateCrossReferences (Prev_array h) =
     [\<lparr>ref_type = ''fact_verification'', ref_confidence = 0.92,
       ref_sources = [''Perplexity'', ''Gemini''], ref_description = description_0\<rparr>,
      \<lparr>ref_type = ''semantic_consistency'', ref_confidence = 0.88,
       ref_sources = [''Gemini'', ''OpenAI''], ref_description = description_1\<rparr>,
      \<lparr>ref_type = ''classification_accuracy'', ref_confidence = 0.95,
       ref_sources = [''OpenAI'', ''Perplexity''], ref_description = description_2\<rparr>] \<and>
   generateCrossReferences Prev_null = []"
  by (simp add: generateCrossReferences_def)

section \<open>The final report\<close>

text \<open>\<^verbatim>\<open>x || 0\<close> leaves a number as it is.\<close>

lemma or_zero_total_tokens:
  "or_zero t = (case t of Some v \<Rightarrow> v | None \<Rightarrow> 0)"
  by (simp add: or_zero_def split: option.splits)

lemma totalSources_aggregate_step:
  "totalSources (aggregate_step report s) = totalSources report + citations_length s"
  by (simp add: aggregate_step_def citations_length_def Let_def split: option.splits)

lemma totalTokens_aggregate_step:
  "totalTokens (aggregate_step report s) = totalTokens report + usage_total_tokens s"
  by (simp add: aggregate_step_def usage_total_tokens_def or_zero_total_tokens Let_def
      split: option.splits)

lemma totalSources_foldl:
  "totalSources (foldl aggregate_step report h) =
     totalSources report + sum_list (map citations_length h)"
  by (induction h arbitrary: report) (simp_all add: totalSources_aggregate_step)

lemma totalTokens_foldl:
  "totalTokens (foldl aggregate_step report h) =
     totalTokens report + sum_list (map usage_total_tokens h)"
  by (induction h arbitrary: report) (simp_all add: totalTokens_aggregate_step)

lemma totals_of_array:
  "totalSources (generateFinalReport now q (Prev_array h)) = sum_list (map citations_length h)"
  "totalTokens (generateFinalReport now q (Prev_array h)) = sum_list (map usage_total_tokens h)"
  by (simp_all add: generateFinalReport_def totalSources_foldl totalTokens_foldl
      initial_report_def)

lemma handler_final_report:
  assumes "truthy q"
  shows "handler e (post_request q (Step_number 4) prev) =
     Response
       (Json_result
          (Step_result 4 stepName_final_report ''Research Orchestrator''
             (Report_data (generateFinalReport (clock e) q prev)) (Some prev) None 100
             aiThoughts_final_report
             (Report_metadata (totalSources (generateFinalReport (clock e) q prev))
                (totalTokens (generateFinalReport (clock e) q prev)) 0.98)))
       200"
proof -
  have "currentStep (inherited e) (Step_number 4) = Some ''final_report''"
    using currentStep_number [of 4 "inherited e"] by (simp add: researchSteps_nth)
  with assms show ?thesis
    by (simp add: handler_post run_step_branches step_final_report_def Let_def or_zero_def)
qed

text \<open>
  Claim C5. \<^verbatim>\<open>generateFinalReport\<close> adds, over all elements of the history, the length
  of the element's \<^verbatim>\<open>data.citations\<close> into \<^verbatim>\<open>totalSources\<close> and its
  \<^verbatim>\<open>data.usage.total_tokens\<close> into \<^verbatim>\<open>totalTokens\<close>. For a history of two elements, one
  with 5 citations and 120 tokens and one with 0 citations and 80 tokens, it returns
  \<^verbatim>\<open>totalSources = 5\<close> and \<^verbatim>\<open>totalTokens = 200\<close>.
\<close>

theorem final_report_totals:
  "totalSources (generateFinalReport now q (Prev_array h)) = sum_list (map citations_length h) \<and>
   totalTokens (generateFinalReport now q (Prev_array h)) = sum_list (map usage_total_tokens h) \<and>
   (citations_length s0 = 5 \<and> usage_total_tokens s0 = 120 \<and>
    citations_length s2 = 0 \<and> usage_total_tokens s2 = 80 \<longrightarrow>
      totalSources (generateFinalReport now q (Prev_array [s0, s2])) = 5 \<and>
      totalTokens (generateFinalReport now q (Prev_array [s0, s2])) = 200)"
proof (intro conjI)
  show "totalSources (generateFinalReport now q (Prev_array h)) =
          sum_list (map citations_length h)"
    by (rule totals_of_array(1))
  show "totalTokens (generateFinalReport now q (Prev_array h)) =
          sum_list (map usage_total_tokens h)"
    by (rule totals_of_array(2))
  show "citations_length s0 = 5 \<and> usage_total_tokens s0 = 120 \<and>
        citations_length s2 = 0 \<and> usage_total_tokens s2 = 80 \<longrightarrow>
          totalSources (generateFinalReport now q (Prev_array [s0, s2])) = 5 \<and>
          totalTokens (generateFinalReport now q (Prev_array [s0, s2])) = 200"
  proof
    assume s: "citations_length s0 = 5 \<and> usage_total_tokens s0 = 120 \<and>
               citations_length s2 = 0 \<and> usage_total_tokens s2 = 80"
    have "totalSources (generateFinalReport now q (Prev_array [s0, s2])) =
            citations_length s0 + citations_length s2"
      by (simp add: totals_of_array(1))
    moreover have "totalTokens (generateFinalReport now q (Prev_array [s0, s2])) =
            usage_total_tokens s0 + usage_total_tokens s2"
      by (simp add: totals_of_array(2))
    ultimately show "totalSources (generateFinalReport now q (Prev_array [s0, s2])) = 5 \<and>
          totalTokens (generateFinalReport now q (Prev_array [s0, s2])) = 200"
      using s by simp
  qed
qed

theorem final_report_totals_witness:
  "citations_length (Hist_result step0_result) = 5 \<and>
   usage_total_tokens (Hist_result step0_result) = 120 \<and>
   citations_length (Hist_result step2_result) = 0 \<and>
   usage_total_tokens (Hist_result step2_result) = 80 \<and>
   totalSources (generateFinalReport ''2025-01-01T00:00:00.000Z'' (JStr ''climate policy'')
                   (Prev_array [Hist_result step0_result, Hist_result step2_result])) = 5 \<and>
   totalTokens (generateFinalReport ''2025-01-01T00:00:00.000Z'' (JStr ''climate policy'')
                  (Prev_array [Hist_result step0_result, Hist_result step2_result])) = 200"
proof -
  have h: "citations_length (Hist_result step0_result) = 5 \<and>
           usage_total_tokens (Hist_result step0_result) = 120 \<and>
           citations_length (Hist_result step2_result) = 0 \<and>
           usage_total_tokens (Hist_result step2_result) = 80"
    by (simp add: citations_length_def usage_total_tokens_def step0_result_def
        step2_result_def sample_response_def)
  from final_report_totals [of "''2025-01-01T00:00:00.000Z''" "JStr ''climate policy''" "[]"
      "Hist_result step0_result" "Hist_result step2_result"] h
  show ?thesis by blast
qed

text \<open>
  Claim C6. For the empty history, sent as the empty array or as \<^verbatim>\<open>null\<close>, the report
  has \<^verbatim>\<open>totalSources = 0\<close> and \<^verbatim>\<open>totalTokens = 0\<close>. Step 4 raises no error: for every
  query that is given, in every environment and for every history, empty or partial,
  the handler answers a request for step 4 with status 200 and the report.
\<close>

theorem final_report_of_empty_history:
  "totalSources (generateFinalReport now q (Prev_array [])) = 0 \<and>
   totalTokens (generateFinalReport now q (Prev_array [])) = 0 \<and>
   totalSources (generateFinalReport now q Prev_null) = 0 \<and>
   totalTokens (generateFinalReport now q Prev_null) = 0 \<and>
   (truthy q \<longrightarrow>
      (\<exists>r. handler e (post_request q (Step_number 4) prev) = Response (Json_result r) 200 \<and>
           step r = 4 \<and> data r = Report_data (generateFinalReport (clock e) q prev)))"
proof -
  have empty: "generateFinalReport now q (Prev_array []) = initial_report now q"
    and null: "generateFinalReport now q Prev_null = initial_report now q"
    by (simp_all add: generateFinalReport_def)
  have zero: "totalSources (initial_report now q) = 0" "totalTokens (initial_report now q) = 0"
    by (simp_all add: initial_report_def)
  have "\<exists>r. handler e (post_request q (Step_number 4) prev) = Response (Json_result r) 200 \<and>
            step r = 4 \<and> data r = Report_data (generateFinalReport (clock e) q prev)"
    if "truthy q"
    using handler_final_report [OF that, of e prev] by simp
  with empty null zero show ?thesis by simp
qed

theorem final_report_of_empty_history_witness:
  "truthy (JStr ''climate policy'') \<and>
   (\<exists>r. handler all_failed_env (post_request (JStr ''climate policy'') (Step_number 4) Prev_null) =
          Response (Json_result r) 200 \<and>
        step r = 4 \<and>
        data r = Report_data (generateFinalReport (clock all_failed_env)
                                (JStr ''climate policy'') Prev_null) \<and>
        totalSources (generateFinalReport (clock all_failed_env)
                        (JStr ''climate policy'') Prev_null) = 0 \<and>
        totalTokens (generateFinalReport (clock all_failed_env)
                        (JStr ''climate policy'') Prev_null) = 0)"
proof -
  have q: "truthy (JStr ''climate policy'')" by simp
  from final_report_of_empty_history [of "clock all_failed_env" "JStr ''climate policy''"
      all_failed_env Prev_null] q
  show ?thesis by blast
qed

section \<open>Failing adapter calls and the driver\<close>

lemma invoke_step_handler:
  "invoke_step e q allStepData stepIndex =
     (case handler e (post_request (JStr q) (Step_number (real stepIndex))
                        (if allStepData \<noteq> [] then Prev_array allStepData else Prev_null)) of
        Response b status \<Rightarrow>
          if 200 \<le> status \<and> status \<le> 299 then allStepData @ [data_of_body b]
          else allStepData)"
  by (simp add: invoke_step_def post_request_def)

lemma invoke_step_no_query: "invoke_step e [] allStepData stepIndex = allStepData"
  by (simp add: invoke_step_def handler_def)

lemma invoke_step_failure:
  assumes "i < 5" and "adapter_failure e i = Some err"
  shows "invoke_step e q allStepData i = allStepData"
proof (cases "q = []")
  case True
  then show ?thesis by (simp add: invoke_step_no_query)
next
  case False
  then have "truthy (JStr q)" by simp
  from handler_failure [OF assms(1) this assms(2)] show ?thesis
    by (simp add: invoke_step_handler)
qed

lemma invoke_step_success:
  assumes "i < 5" and "q \<noteq> []" and "adapter_failure e i = None"
  shows "\<exists>r. invoke_step e q allStepData i = allStepData @ [Hist_result r] \<and> step r = i \<and>
             progress r = [20, 40, 65, 85, 100] ! i \<and>
             nextStep r = (if i = 4 then None else Some (i + 1))"
proof -
  let ?prev = "if allStepData \<noteq> [] then Prev_array allStepData else Prev_null"
  from assms(2) have q: "truthy (JStr q)" by simp
  from run_step_success [OF assms(1,3), of "JStr q" ?prev] obtain r where
    r: "run_step e (JStr q) ?prev (Some (researchSteps ! i)) = Inr (Some r)"
    and w: "step r = i" "progress r = [20, 40, 65, 85, 100] ! i"
      "nextStep r = (if i = 4 then None else Some (i + 1))"
    by blast
  from r q assms(1) have
    "handler e (post_request (JStr q) (Step_number (real i)) ?prev) = Response (Json_result r) 200"
    by (simp add: handler_post currentStep_number)
  then have "invoke_step e q allStepData i = allStepData @ [Hist_result r]"
    by (simp add: invoke_step_handler)
  with w show ?thesis by blast
qed

lemma adapter_failure_final: "adapter_failure e 4 = None"
  by (simp add: adapter_failure_def)

lemma steps_of_run:
  assumes "q \<noteq> []" and "\<forall>j\<in>set js. j < 5"
  shows "map elem_step (foldl (\<lambda>allStepData j. invoke_step (envs j) q allStepData j) h js) =
         map elem_step h @ map Some (filter (\<lambda>j. adapter_failure (envs j) j = None) js)"
  using assms(2)
proof (induction js arbitrary: h)
  case Nil
  then show ?case by simp
next
  case (Cons j js)
  then have j: "j < 5" and js: "\<forall>j\<in>set js. j < 5" by simp_all
  show ?case
  proof (cases "adapter_failure (envs j) j")
    case None
    from invoke_step_success [OF j assms(1) None, of h] obtain r where
      "invoke_step (envs j) q h j = h @ [Hist_result r]" "step r = j"
      by blast
    with Cons.IH [OF js, of "h @ [Hist_result r]"] None show ?thesis by simp
  next
    case (Some err)
    from invoke_step_failure [OF j Some, of q h] Cons.IH [OF js, of h] Some
    show ?thesis by simp
  qed
qed

lemma upt_five: "[0..<5] = [0, 1, 2, 3, 4::nat]"
  by (simp add: upt_rec)

lemma steps_of_executeMultiStepResearch:
  assumes "q \<noteq> []"
  shows "map elem_step (executeMultiStepResearch envs q) =
         map Some (filter (\<lambda>j. adapter_failure (envs j) j = None) [0..<5])"
  using steps_of_run [OF assms, of "[0..<5]" envs "[]"]
  by (simp add: executeMultiStepResearch_def)

lemma run_ends_with_report:
  assumes "q \<noteq> []"
  shows "\<exists>done r. executeMultiStepResearch envs q = done @ [Hist_result r] \<and> step r = 4 \<and>
                  progress r = 100 \<and> nextStep r = None"
proof -
  let ?f = "\<lambda>allStepData j. invoke_step (envs j) q allStepData j"
  have "executeMultiStepResearch envs q = ?f (foldl ?f [] [0, 1, 2, 3]) 4"
    by (simp add: executeMultiStepResearch_def upt_five)
  with invoke_step_success [OF _ assms adapter_failure_final, of "envs 4" "foldl ?f [] [0, 1, 2, 3]"]
  show ?thesis by auto
qed




text \<open>
  Claim C3, as stated: when exactly one of the two calls of step 3 fails, a result for
  step 3, possibly partial, is still produced. \<^verbatim>\<open>Promise.all\<close> rejects as soon as one of
  its promises does: with the search provider succeeding and the reasoning provider
  answering 503, the request for step 3 is answered with status 500 and the error of
  the reasoning provider; the body of the search provider is dropped.
\<close>

theorem gemini_error_fails_step_3:
  "handler gemini_down_env (post_request (JStr ''climate policy'') (Step_number 3) Prev_null) =
     Response (Json_error (Gemini_API_error 503)) 500"
  by (simp add: handler_def post_request_def gemini_down_env_def sample_env_def
      failed_fetch_def ok_fetch_def currentStep_def lookup_step_def index_of_number_def
      researchSteps_def run_step_def step_synthesis_validation_def promise_all_def
      callPerplexity_def enhance_element_def callGemini_def sample_response_def)

text \<open>
  Claim C3, amended. When exactly one of the two adapter calls of step 3 fails and the
  other succeeds, no exception escapes the handler: it answers with status 500 and
  the error of the failed call, and produces no result for step 3, not a partial one
  either. The driver adds nothing to the history for step 3, so the finished run has
  no element of step 3, and the run still goes on to step 4 and ends with its result
  (progress 100, no next step).
\<close>

theorem join_failure_fails_step_3:
  assumes "truthy q"
    and "(callPerplexity (perplexity_fetch e) (math_random e) = Inl err \<and>
          callGemini (gemini_fetch e) = Inr g) \<or>
         (callPerplexity (perplexity_fetch e) (math_random e) = Inr p \<and>
          callGemini (gemini_fetch e) = Inl err)"
  shows "handler e (post_request q (Step_number 3) prev) = Response (Json_error err) 500 \<and>
         invoke_step e search allStepData 3 = allStepData \<and>
         (search \<noteq> [] \<and> envs 3 = e \<longrightarrow>
            Some 3 \<notin> set (map elem_step (executeMultiStepResearch envs search)) \<and>
            (\<exists>done r. executeMultiStepResearch envs search = done @ [Hist_result r] \<and>
                      step r = 4 \<and> progress r = 100 \<and> nextStep r = None))"
proof -
  have i: "(3::nat) < 5" by simp
  from assms(2) have f: "adapter_failure e 3 = Some err"
    by (auto simp: adapter_failure_def promise_all_def)
  have "Some 3 \<notin> set (map elem_step (executeMultiStepResearch envs search))"
    if "search \<noteq> []" "envs 3 = e"
    using that f by (auto simp: steps_of_executeMultiStepResearch)
  with handler_failure [OF i assms(1) f, of prev] invoke_step_failure [OF i f, of search allStepData]
    run_ends_with_report [of search envs]
  show ?thesis by simp
qed

theorem join_failure_fails_step_3_witness:
  "truthy (JStr ''climate policy'') \<and>
   callPerplexity (perplexity_fetch gemini_down_env) (math_random gemini_down_env) =
     Inr (sample_response
            (Some [(sample_citation (JStr ''#''))
                     \<lparr>relevanceScore := JNum 1, trustScore := JNum (3 / 4),
                      category := JStr ''web''\<rparr>]) 120) \<and>
   callGemini (gemini_fetch gemini_down_env) = Inl (Gemini_API_error 503) \<and>
   ''climate policy'' \<noteq> [] \<and> gemini_down_at_3 3 = gemini_down_env \<and>
   handler gemini_down_env (post_request (JStr ''climate policy'') (Step_number 3)
      (Prev_array [Hist_result step0_result])) = Response (Json_error (Gemini_API_error 503)) 500 \<and>
   invoke_step gemini_down_env ''climate policy'' [Hist_result step0_result] 3 =
     [Hist_result step0_result] \<and>
   Some 3 \<notin> set (map elem_step (executeMultiStepResearch gemini_down_at_3 ''climate policy'')) \<and>
   (\<exists>done r. executeMultiStepResearch gemini_down_at_3 ''climate policy'' =
               done @ [Hist_result r] \<and>
             step r = 4 \<and> progress r = 100 \<and> nextStep r = None)"
proof -
  have q: "truthy (JStr ''climate policy'')" by simp
  have p: "callPerplexity (perplexity_fetch gemini_down_env) (math_random gemini_down_env) =
     Inr (sample_response
            (Some [(sample_citation (JStr ''#''))
                     \<lparr>relevanceScore := JNum 1, trustScore := JNum (3 / 4),
                      category := JStr ''web''\<rparr>]) 120)"
    by (simp add: gemini_down_env_def sample_env_def ok_fetch_def callPerplexity_def
        enhance_element_def sample_response_def sample_citation_def constant_random_def
        enhance_citation_def js_or_def)
  have g: "callGemini (gemini_fetch gemini_down_env) = Inl (Gemini_API_error 503)"
    by (simp add: gemini_down_env_def sample_env_def failed_fetch_def callGemini_def)
  have n: "''climate policy'' \<noteq> []" and a: "gemini_down_at_3 3 = gemini_down_env"
    by (simp_all add: gemini_down_at_3_def)
  from p g have d: "(callPerplexity (perplexity_fetch gemini_down_env)
            (math_random gemini_down_env) = Inl (Gemini_API_error 503) \<and>
          callGemini (gemini_fetch gemini_down_env) = Inr (sample_response None 0)) \<or>
         (callPerplexity (perplexity_fetch gemini_down_env) (math_random gemini_down_env) =
            Inr (sample_response
            (Some [(sample_citation (JStr ''#''))
                     \<lparr>relevanceScore := JNum 1, trustScore := JNum (3 / 4),
                      category := JStr ''web''\<rparr>]) 120) \<and>
          callGemini (gemini_fetch gemini_down_env) = Inl (Gemini_API_error 503))"
    by simp
  from join_failure_fails_step_3 [OF q d, of "Prev_array [Hist_result step0_result]"
      "''climate policy''" "[Hist_result step0_result]" gemini_down_at_3] n a
  show ?thesis using q p g by simp
qed

section \<open>A step value that is no index\<close>

text \<open>
  A step value that finds nothing in the array of step names falls back to the first
  step: every number that is not one of 0, 1, 2, 3, 4, and every key that is no
  decimal index and names no property of the array.
\<close>

lemma currentStep_fallback_number:
  "index_of_number x = None \<Longrightarrow> currentStep proto (Step_number x) = Some ''initial_research''"
  by (simp add: currentStep_def lookup_step_def)

lemma index_of_number_outside:
  "x < 0 \<or> 4 < x \<or> x \<noteq> of_int \<lfloor>x\<rfloor> \<Longrightarrow> index_of_number x = None"
  by (auto simp: index_of_number_def researchSteps_def)

lemma currentStep_fallback_key:
  "index_of_key k = None \<Longrightarrow> k \<noteq> ''length'' \<Longrightarrow> \<not> proto k \<Longrightarrow>
   currentStep proto (Step_key k) = Some ''initial_research''"
  by (simp add: currentStep_key)

lemma handler_fallback:
  assumes "truthy q" and "currentStep (inherited e) s = Some ''initial_research''"
    and "adapter_failure e 0 = None"
  shows "\<exists>r. handler e (post_request q s prev) = Response (Json_result r) 200 \<and>
             step r = 0 \<and> progress r = 20 \<and> nextStep r = Some 1"
  using run_step_success [of 0 e q prev] assms
  by (auto simp: handler_post researchSteps_nth)

text \<open>
  Claim C10. A request whose step value is no valid index should fall back to the
  initial research and get its result, with progress 20 and next step 1. For the step
  value \<^verbatim>\<open>"length"\<close> the lookup \<^verbatim>\<open>researchSteps["length"]\<close> finds the number 5, which is
  truthy, so \<^verbatim>\<open>|| "initial_research"\<close> does not apply; no branch matches and the answer
  is the empty object \<^verbatim>\<open>{}\<close> with status 200.
\<close>

theorem step_length_returns_empty_object:
  "truthy (JStr ''climate policy'') \<and>
   handler all_ok_env (post_request (JStr ''climate policy'') (Step_key ''length'') Prev_null) =
     Response Json_empty 200"
  by (simp add: handler_def post_request_def currentStep_def lookup_step_def index_of_key_def
      run_step_def)

end
